theory Spec2Isabelle
  imports Complex_Main "HOL-Library.Sublist"
begin

section \<open>JavaScript strings and numbers\<close>

text \<open>
  A JavaScript string is modelled by its UTF-8 octets (\<open>string\<close> is \<open>char list\<close> and a
  \<open>char\<close> is one octet). Every delimiter the program looks for is ASCII, and UTF-8 is
  self-synchronising, so the replacements and splits of the source act on the octets as they act
  on the characters. Strings holding lone surrogates are outside the model.
  An optional JSON field is an \<open>option\<close>; \<open>None\<close> stands for \<open>undefined\<close> and \<open>null\<close>.
\<close>

abbreviation LF :: char where "LF \<equiv> CHR 0x0A"
abbreviation CR :: char where "CR \<equiv> CHR 0x0D"
abbreviation BSL :: char where "BSL \<equiv> CHR 0x5C"

definition CRLF :: string where
  "CRLF = [CR, LF]"

text \<open>\<open>Array.prototype.join\<close>.\<close>

fun join :: "string \<Rightarrow> string list \<Rightarrow> string" where
  "join sep [] = []"
| "join sep [x] = x"
| "join sep (x # y # ys) = x @ sep @ join sep (y # ys)"

text \<open>\<open>String.prototype.includes\<close>.\<close>

definition includes_str :: "string \<Rightarrow> string \<Rightarrow> bool" where
  "includes_str s pat = sublist pat s"

text \<open>\<open>!str\<close> for an optional string: absent or empty.\<close>

definition falsy :: "string option \<Rightarrow> bool" where
  "falsy s = (case s of None \<Rightarrow> True | Some t \<Rightarrow> t = [])"

text \<open>
  \<open>toLowerCase\<close> on the ASCII letters. The only use is the search for the ASCII word
  \<open>unavailable\<close>; no character outside ASCII folds to a run of ASCII letters that could
  complete that word, so the octet-wise folding decides the search as the source does.
\<close>

definition lowerChar :: "char \<Rightarrow> char" where
  "lowerChar c =
     (case map_of (zip ''ABCDEFGHIJKLMNOPQRSTUVWXYZ'' ''abcdefghijklmnopqrstuvwxyz'') c of
        None \<Rightarrow> c | Some l \<Rightarrow> l)"

definition toLowerCase :: "string \<Rightarrow> string" where
  "toLowerCase s = map lowerChar s"

definition isDigit :: "char \<Rightarrow> bool" where
  "isDigit c = (c \<in> set ''0123456789'')"

definition isHexDigit :: "char \<Rightarrow> bool" where
  "isHexDigit c = (c \<in> set ''0123456789abcdefABCDEF'')"

definition isAlnum :: "char \<Rightarrow> bool" where
  "isAlnum c = (c \<in> set ''0123456789abcdefghijklmnopqrstuvwxyzABCDEFGHIJKLMNOPQRSTUVWXYZ'')"

text \<open>Position of the first occurrence of \<open>c\<close> in \<open>s\<close>; the length of \<open>s\<close> if there is none.\<close>

fun indexOf :: "char \<Rightarrow> string \<Rightarrow> nat" where
  "indexOf c [] = 0"
| "indexOf c (x # xs) = (if x = c then 0 else Suc (indexOf c xs))"

text \<open>The value of a digit is its place in the alphabet of digits.\<close>

definition digitVal :: "char \<Rightarrow> nat" where
  "digitVal c = (let i = indexOf (lowerChar c) ''0123456789abcdef'' in if i < 16 then i else 0)"

text \<open>\<open>parseInt(digits, radix)\<close> on a string of digits of that radix.\<close>

definition parseInt :: "nat \<Rightarrow> string \<Rightarrow> nat" where
  "parseInt radix ds = foldl (\<lambda>a c. a * radix + digitVal c) 0 ds"

text \<open>Decimal rendering of an integer, as \<open>String(n)\<close> and template literals produce it.\<close>

definition digitChar :: "nat \<Rightarrow> char" where
  "digitChar d = ''0123456789'' ! d"

fun showNat :: "nat \<Rightarrow> string" where
  "showNat n = (if n < 10 then [digitChar n] else showNat (n div 10) @ [digitChar (n mod 10)])"

declare showNat.simps [simp del]

definition showInt :: "int \<Rightarrow> string" where
  "showInt i = (if i < 0 then CHR ''-'' # showNat (nat (- i)) else showNat (nat i))"

text \<open>\<open>s.padStart(2, '0')\<close>.\<close>

definition padStart2 :: "string \<Rightarrow> string" where
  "padStart2 s = replicate (2 - length s) CHR ''0'' @ s"

text \<open>
  \<open>x.toFixed(2)\<close>: the integer \<open>n\<close> with \<open>n / 100\<close> nearest to \<open>x\<close>, the larger one on a
  tie, printed with two decimals. A double is a rational number, so \<open>rat\<close> holds every
  price the source can see (below \<open>1e21\<close>, where \<open>toFixed\<close> changes notation).
\<close>

definition toFixed2 :: "rat \<Rightarrow> string" where
  "toFixed2 x =
     (let a = \<bar>x\<bar>; n = nat \<lfloor>a * 100 + 1 / 2\<rfloor>
      in (if x < 0 then ''-'' else '''') @ showNat (n div 100) @ ''.'' @ padStart2 (showNat (n mod 100)))"

subsection \<open>UTF-8\<close>

text \<open>The octets of one code point.\<close>

definition utf8_encode1 :: "nat \<Rightarrow> string" where
  "utf8_encode1 cp =
     (if cp < 0x80 then [char_of cp]
      else if cp < 0x800 then [char_of (0xC0 + cp div 64), char_of (0x80 + cp mod 64)]
      else if cp < 0x10000 then
        [char_of (0xE0 + cp div 4096), char_of (0x80 + (cp div 64) mod 64), char_of (0x80 + cp mod 64)]
      else
        [char_of (0xF0 + cp div 262144), char_of (0x80 + (cp div 4096) mod 64),
         char_of (0x80 + (cp div 64) mod 64), char_of (0x80 + cp mod 64)])"

definition utf8_encode :: "nat list \<Rightarrow> string" where
  "utf8_encode cps = concat (map utf8_encode1 cps)"

subsection \<open>White space\<close>

text \<open>
  The characters that \<open>trim\<close> removes and that \<open>\s\<close> matches, each as its UTF-8 octets:
  the WhiteSpace and LineTerminator code points of ECMAScript, which are U+0009 to U+000D,
  U+0020, U+00A0, U+1680, U+2000 to U+200A, U+2028, U+2029, U+202F, U+205F, U+3000, U+FEFF.
\<close>

definition whiteSpace :: "string list" where
  "whiteSpace =
     [[CHR 0x09], [CHR 0x0A], [CHR 0x0B], [CHR 0x0C], [CHR 0x0D], [CHR 0x20],
      [CHR 0xC2, CHR 0xA0], [CHR 0xE1, CHR 0x9A, CHR 0x80],
      [CHR 0xE2, CHR 0x80, CHR 0x80], [CHR 0xE2, CHR 0x80, CHR 0x81],
      [CHR 0xE2, CHR 0x80, CHR 0x82], [CHR 0xE2, CHR 0x80, CHR 0x83],
      [CHR 0xE2, CHR 0x80, CHR 0x84], [CHR 0xE2, CHR 0x80, CHR 0x85],
      [CHR 0xE2, CHR 0x80, CHR 0x86], [CHR 0xE2, CHR 0x80, CHR 0x87],
      [CHR 0xE2, CHR 0x80, CHR 0x88], [CHR 0xE2, CHR 0x80, CHR 0x89],
      [CHR 0xE2, CHR 0x80, CHR 0x8A], [CHR 0xE2, CHR 0x80, CHR 0xA8],
      [CHR 0xE2, CHR 0x80, CHR 0xA9], [CHR 0xE2, CHR 0x80, CHR 0xAF],
      [CHR 0xE2, CHR 0x81, CHR 0x9F], [CHR 0xE3, CHR 0x80, CHR 0x80],
      [CHR 0xEF, CHR 0xBB, CHR 0xBF]]"

text \<open>
  Number of octets of the white-space character at the head of \<open>s\<close>, 0 if there is none.
  The first octet of a white-space character is an ASCII one or one of C2, E1, E2, E3, EF.
\<close>

definition wsLen :: "string \<Rightarrow> nat" where
  "wsLen s =
     (case s of
        [] \<Rightarrow> 0
      | c # _ \<Rightarrow>
          if c \<in> set [CHR 0x09, CHR 0x0A, CHR 0x0B, CHR 0x0C, CHR 0x0D, CHR 0x20,
                       CHR 0xC2, CHR 0xE1, CHR 0xE2, CHR 0xE3, CHR 0xEF]
          then (case find (\<lambda>w. prefix w s) whiteSpace of None \<Rightarrow> 0 | Some w \<Rightarrow> length w)
          else 0)"

text \<open>\<open>trimStart\<close> drops white-space characters from the head.\<close>

fun trimStart :: "string \<Rightarrow> string" where
  "trimStart s = (if s = [] \<or> wsLen s = 0 then s else trimStart (drop (wsLen s) s))"

declare trimStart.simps [simp del]

text \<open>
  \<open>trimEnd\<close> drops the longest suffix made of white-space characters: the text is cut at
  the first place from which only white space follows.
\<close>

fun trimEnd :: "string \<Rightarrow> string" where
  "trimEnd [] = []"
| "trimEnd (c # s) = (if trimStart (c # s) = [] then [] else c # trimEnd s)"

definition trim :: "string \<Rightarrow> string" where
  "trim s = trimEnd (trimStart s)"

text \<open>Octets of the longest run of white space at the head of \<open>s\<close> (a greedy \<open>\s*\<close>).\<close>

fun wsRun :: "string \<Rightarrow> nat" where
  "wsRun s = (if s = [] \<or> wsLen s = 0 then 0 else wsLen s + wsRun (drop (wsLen s) s))"

declare wsRun.simps [simp del]

subsection \<open>Global regular-expression replacement\<close>

text \<open>
  \<open>s.replace(/re/g, rep)\<close> for a pattern that never matches the empty string: \<open>m t\<close> is
  the length of the match of the pattern at the head of \<open>t\<close>, 0 when it does not match there.
  The scan goes left to right and resumes behind each match.
\<close>

fun replaceAll :: "(string \<Rightarrow> nat) \<Rightarrow> string \<Rightarrow> string \<Rightarrow> string" where
  "replaceAll m rep [] = []"
| "replaceAll m rep (c # s) =
     (if m (c # s) = 0 then c # replaceAll m rep s
      else rep @ replaceAll m rep (drop (m (c # s)) (c # s)))"

text \<open>
  A sequence of character classes, each class given by its members: \<open>/<\/p>/i\<close> is
  \<open>[''<'', ''/'', ''pP'', ''>'']\<close>, the flag \<open>i\<close> making \<open>p\<close> the class of \<open>p\<close> and \<open>P\<close>.
\<close>

fun matchSeq :: "string list \<Rightarrow> string \<Rightarrow> bool" where
  "matchSeq [] s = True"
| "matchSeq (cl # cls) [] = False"
| "matchSeq (cl # cls) (c # s) = (if c \<in> set cl then matchSeq cls s else False)"

definition match_seq :: "string list \<Rightarrow> string \<Rightarrow> nat" where
  "match_seq cls s = (if matchSeq cls s then length cls else 0)"

text \<open>\<open>/<br\s*\/?>/i\<close>\<close>

definition match_br :: "string \<Rightarrow> nat" where
  "match_br s =
     (if \<not> matchSeq [''<'', ''bB'', ''rR''] s then 0
      else let r1 = drop 3 s; w = wsRun r1; r2 = drop w r1;
               k = (if take 1 r2 = ''/'' then 1 else 0); r3 = drop k r2
           in if take 1 r3 = ''>'' then 3 + w + k + 1 else 0)"

text \<open>\<open>/<[^>]+>/\<close>\<close>

definition match_tag :: "string \<Rightarrow> nat" where
  "match_tag s =
     (case s of [] \<Rightarrow> 0
      | c # r \<Rightarrow>
          if c \<noteq> CHR ''<'' then 0
          else let a = takeWhile (\<lambda>x. x \<noteq> CHR ''>'') r
               in if a \<noteq> [] \<and> length a < length r then length a + 2 else 0)"

text \<open>\<open>/\n{3,}/\<close>\<close>

definition match_nl3 :: "string \<Rightarrow> nat" where
  "match_nl3 s = (let n = length (takeWhile (\<lambda>x. x = LF) s) in if 3 \<le> n then n else 0)"

text \<open>A single character, as in \<open>/;/g\<close>.\<close>

definition match_char :: "char \<Rightarrow> string \<Rightarrow> nat" where
  "match_char c s = (case s of [] \<Rightarrow> 0 | x # _ \<Rightarrow> if x = c then 1 else 0)"

section \<open>The \<open>he\<close> package: \<open>he.decode\<close>\<close>

text \<open>
  \<open>he\<close> is a third-party package, not code of this repository. \<open>he.decode\<close> with its
  default options (not strict, not an attribute value) replaces the matches of one regular
  expression with five alternatives, tried in this order at each \<open>&\<close>:
  a named reference with its semicolon; a legacy named reference without semicolon, followed
  by at most one character of \<open>[=a-zA-Z0-9]\<close> that is kept; a decimal reference; a hexadecimal
  reference; any other run of letters and digits, which is left as it is.
  The two tables of names are the package's data and are parameters here; the numeric part
  is modelled in full.
\<close>

record he_tables =
  decodeMap :: "(string \<times> string) list"
  decodeMapLegacy :: "(string \<times> string) list"

text \<open>Code points that a numeric reference does not denote literally (Windows-1252 legacy).\<close>

definition decodeMapNumeric :: "(nat \<times> nat) list" where
  "decodeMapNumeric =
     [(0, 0xFFFD), (128, 0x20AC), (130, 0x201A), (131, 0x0192), (132, 0x201E), (133, 0x2026),
      (134, 0x2020), (135, 0x2021), (136, 0x02C6), (137, 0x2030), (138, 0x0160), (139, 0x2039),
      (140, 0x0152), (142, 0x017D), (145, 0x2018), (146, 0x2019), (147, 0x201C), (148, 0x201D),
      (149, 0x2022), (150, 0x2013), (151, 0x2014), (152, 0x02DC), (153, 0x2122), (154, 0x0161),
      (155, 0x203A), (156, 0x0153), (158, 0x017E), (159, 0x0178)]"

definition codePointToSymbol :: "nat \<Rightarrow> string" where
  "codePointToSymbol codePoint =
     (if (0xD800 \<le> codePoint \<and> codePoint \<le> 0xDFFF) \<or> codePoint > 0x10FFFF
      then utf8_encode1 0xFFFD
      else case map_of decodeMapNumeric codePoint of
             Some r \<Rightarrow> utf8_encode1 r
           | None \<Rightarrow> utf8_encode1 codePoint)"

text \<open>
  The reference at the head of \<open>s\<close>, the text behind an \<open>&\<close>: its replacement and the
  number of octets of \<open>s\<close> it takes up, or \<open>None\<close> when no alternative matches.
\<close>

definition matchRef :: "he_tables \<Rightarrow> string \<Rightarrow> (string \<times> nat) option" where
  "matchRef T s =
     (let word = takeWhile isAlnum s;
          semi = (\<lambda>n. take 1 (drop n s) = '';'');
          named = (if semi (length word) then map_of (decodeMap T) word else None);
          legacy = find (\<lambda>(nm, r). prefix nm s \<and> \<not> semi (length nm)) (decodeMapLegacy T);
          dec = takeWhile isDigit (drop 1 s);
          hex = takeWhile isHexDigit (drop 2 s)
      in case named of
           Some r \<Rightarrow> Some (r, length word + 1)
         | None \<Rightarrow>
        (case legacy of
           Some (nm, r) \<Rightarrow>
             (let next = take 1 (drop (length nm) s)
              in if next \<noteq> [] \<and> (isAlnum (hd next) \<or> next = ''='')
                 then Some (r @ next, length nm + 1) else Some (r, length nm))
         | None \<Rightarrow>
        (if take 1 s = ''#'' \<and> dec \<noteq> [] then
           Some (codePointToSymbol (parseInt 10 dec),
                 1 + length dec + (if semi (1 + length dec) then 1 else 0))
         else if (take 2 s = ''#x'' \<or> take 2 s = ''#X'') \<and> hex \<noteq> [] then
           Some (codePointToSymbol (parseInt 16 hex),
                 2 + length hex + (if semi (2 + length hex) then 1 else 0))
         else if word \<noteq> [] then Some (CHR ''&'' # word, length word)
         else None)))"

fun he_decode :: "he_tables \<Rightarrow> string \<Rightarrow> string" where
  "he_decode T [] = []"
| "he_decode T (c # s) =
     (if c \<noteq> CHR ''&'' then c # he_decode T s
      else case matchRef T s of
             None \<Rightarrow> c # he_decode T s
           | Some (rep, n) \<Rightarrow> rep @ he_decode T (drop n s))"

section \<open>Helpers of \<open>scrape.js\<close>\<close>

definition BASE_URL :: string where
  "BASE_URL = ''https://members.thequinhouse.com''"

text \<open>\<open>stripHtml\<close> (lines 27 to 37). The collapse of newline runs is applied to the argument
  of \<open>he.decode\<close>, the trimming to its result.\<close>

definition stripHtml :: "he_tables \<Rightarrow> string option \<Rightarrow> string" where
  "stripHtml T html =
     (if falsy html then []
      else trim (he_decode T
             (replaceAll match_nl3 [LF, LF]
               (replaceAll match_tag []
                 (replaceAll (match_seq [''<'', ''/'', ''dD'', ''iI'', ''vV'', ''>'']) [LF]
                   (replaceAll (match_seq [''<'', ''/'', ''pP'', ''>'']) [LF]
                     (replaceAll match_br [LF] (the html))))))))"

text \<open>\<open>escapeIcs\<close> (lines 76 to 84).\<close>

definition escapeIcs :: "string option \<Rightarrow> string" where
  "escapeIcs str =
     (if falsy str then []
      else replaceAll (match_char CR) []
             (replaceAll (match_char LF) [BSL, CHR ''n'']
               (replaceAll (match_char CHR '','') [BSL, CHR '','']
                 (replaceAll (match_char CHR '';'') [BSL, CHR '';'']
                   (replaceAll (match_char BSL) [BSL, BSL] (the str))))))"

section \<open>Event records\<close>

text \<open>
  The records of the events API, with the fields the program reads. An identifier is a JSON
  number or a JSON string. A price is a JSON number; a double is a rational number.
  \<open>waitlistSubmitted\<close> is the viewer's own waitlist submission, which the changelog of the
  repository calls \<open>_waitlistSubmitted\<close>; no line of \<open>scrape.js\<close> reads it.
\<close>

datatype ident = IdNum int | IdStr string

fun showIdent :: "ident \<Rightarrow> string" where
  "showIdent (IdNum n) = showInt n"
| "showIdent (IdStr s) = s"

text \<open>Truthiness of an identifier: a non-zero number, a non-empty string.\<close>

fun truthyIdent :: "ident option \<Rightarrow> bool" where
  "truthyIdent None = False"
| "truthyIdent (Some (IdNum n)) = (n \<noteq> 0)"
| "truthyIdent (Some (IdStr s)) = (s \<noteq> [])"

record category =
  name :: string

record pricing =
  base_price :: "rat option"

record ticket =
  pricing :: "pricing option"
  available_quantity :: "int option"

record waitlist_form =
  waitlist_id :: "ident option"

record local_date =
  date :: "string option"

record event =
  event_id :: ident
  title :: "string option"
  description :: "string option"
  venue :: "string option"
  start_date_local :: "local_date option"
  end_date_local :: "local_date option"
  categories :: "category list"
  tickets :: "ticket list"
  availability :: "string option"
  registered :: "bool option"
  waitlist :: "waitlist_form option"
  waitlistSubmitted :: "bool option"

section \<open>\<open>buildDescription\<close> (lines 100 to 166)\<close>

text \<open>
  The function pushes onto \<open>parts\<close> and joins with newlines at the end. Each block of
  pushes is one definition here, in the order of the source.
\<close>

text \<open>Category (lines 104 to 107).\<close>

definition categoryPart :: "event \<Rightarrow> string list" where
  "categoryPart event =
     (if categories event \<noteq> []
      then [''Category: '' @ join '', '' (map name (categories event))] else [])"

text \<open>Price and ticket information (lines 109 to 124).\<close>

definition pricePart :: "event \<Rightarrow> string list" where
  "pricePart event =
     (case tickets event of
        [] \<Rightarrow> [''Price: Free / Included'']
      | ticket # _ \<Rightarrow>
          [case pricing ticket of
             None \<Rightarrow> ''Price: RSVP (see event page)''
           | Some p \<Rightarrow>
               (case base_price p of
                  None \<Rightarrow> ''Price: RSVP (see event page)''
                | Some b \<Rightarrow>
                    if b > 0 then ''Price: $'' @ toFixed2 b @ '' per person''
                    else if b = 0 then ''Price: Free''
                    else ''Price: RSVP (see event page)'')]
          @ (case available_quantity ticket of
               None \<Rightarrow> []
             | Some q \<Rightarrow>
                 if q > 0
                 then [''Availability: '' @ showInt q @ '' spot'' @ (if q \<noteq> 1 then ''s'' else [])
                       @ '' left'']
                 else []))"

text \<open>
  Personal registration status, then the availability of the event (lines 126 to 148).
  \<open>isOnWaitlist\<close> is \<open>event.waitlist && event.waitlist.id\<close>.
\<close>

definition isConfirmed :: "event \<Rightarrow> bool" where
  "isConfirmed event = (registered event = Some True)"

definition isOnWaitlist :: "event \<Rightarrow> bool" where
  "isOnWaitlist event =
     (case waitlist event of None \<Rightarrow> False | Some w \<Rightarrow> truthyIdent (waitlist_id w))"

definition statusPart :: "event \<Rightarrow> string list" where
  "statusPart event =
     (if isConfirmed event then [''Status: You are Confirmed'']
      else if isOnWaitlist event then [''Status: You are on Waitlist'']
      else
        (let avail = availability event in
         if avail = Some ''sold_out'' then [''Status: Sold Out'']
         else if avail = Some ''waitlist'' then [''Status: Waitlist Only'']
         else if avail = Some ''available'' then [''Status: Available'']
         else if \<not> falsy avail \<and> includes_str (toLowerCase (the avail)) ''unavailable''
           then [''Status: Unavailable'']
         else if \<not> falsy avail then [''Status: '' @ the avail]
         else []))"

text \<open>Time note (lines 150 to 153).\<close>

definition timePart :: "string option \<Rightarrow> string list" where
  "timePart timeNote = (if \<not> falsy timeNote then [''Time: '' @ the timeNote] else [])"

text \<open>Event URL, separator and full description (lines 155 to 163).\<close>

definition urlPart :: "event \<Rightarrow> string list" where
  "urlPart event = [''Event URL: '' @ BASE_URL @ ''/events/'' @ showIdent (event_id event), []]"

definition descPart :: "he_tables \<Rightarrow> event \<Rightarrow> string list" where
  "descPart T event = (let desc = stripHtml T (description event) in if desc \<noteq> [] then [desc] else [])"

definition descriptionParts :: "he_tables \<Rightarrow> event \<Rightarrow> string option \<Rightarrow> string list" where
  "descriptionParts T event timeNote =
     categoryPart event @ pricePart event @ statusPart event @ timePart timeNote
     @ urlPart event @ descPart T event"

definition buildDescription :: "he_tables \<Rightarrow> event \<Rightarrow> string option \<Rightarrow> string" where
  "buildDescription T event timeNote = join [LF] (descriptionParts T event timeNote)"

section \<open>Numbers of clock times\<close>

text \<open>
  \<open>s.split(sep)[0]\<close> and \<open>s.split(sep)[1]\<close> for a separator of one character; the second
  is \<open>undefined\<close> when the separator does not occur.
\<close>

definition split0 :: "char \<Rightarrow> string \<Rightarrow> string" where
  "split0 sep s = takeWhile (\<lambda>c. c \<noteq> sep) s"

definition split1 :: "char \<Rightarrow> string \<Rightarrow> string option" where
  "split1 sep s =
     (case dropWhile (\<lambda>c. c \<noteq> sep) s of [] \<Rightarrow> None | _ # r \<Rightarrow> Some (split0 sep r))"

text \<open>\<open>a || b\<close> for strings: \<open>b\<close> when \<open>a\<close> is absent or empty.\<close>

definition orElse :: "string option \<Rightarrow> string \<Rightarrow> string" where
  "orElse a b = (if falsy a then b else the a)"

text \<open>
  \<open>Number\<close> on a field of a clock time: a string of decimal digits, white space around it
  ignored, is its value, the empty string is 0, \<open>undefined\<close> and other text are \<open>NaN\<close>
  (\<open>None\<close>). Signed, fractional, exponent and hexadecimal literals, and more than 15
  digits, do not occur in clock times and are outside the model.
\<close>

definition Number_field :: "string option \<Rightarrow> nat option" where
  "Number_field f =
     (case f of
        None \<Rightarrow> None
      | Some s \<Rightarrow> (let t = trim s in
                   if t = [] then Some 0
                   else if list_all isDigit t then Some (parseInt 10 t) else None))"

subsection \<open>Double-precision arithmetic\<close>

text \<open>
  A finite double is a rational number. \<open>fl x\<close> is the double nearest to \<open>x\<close>, the one with
  the even significand on a tie: with \<open>2 ^ e \<le> |x| < 2 ^ (e + 1)\<close> the doubles around \<open>x\<close> are
  the multiples of \<open>2 ^ (e - 52)\<close>. Overflow and subnormal numbers are not modelled; the
  values of the program lie between \<open>1 / 60\<close> and the count of hours.
\<close>

fun bits :: "nat \<Rightarrow> nat" where
  "bits n = (if n = 0 then 0 else Suc (bits (n div 2)))"

declare bits.simps [simp del]

definition ilog2 :: "rat \<Rightarrow> int" where
  "ilog2 x = (if 1 \<le> x then int (bits (nat \<lfloor>x\<rfloor>)) - 1 else - int (bits (nat (\<lceil>1 / x\<rceil> - 1))))"

definition pow2 :: "int \<Rightarrow> rat" where
  "pow2 e = (if 0 \<le> e then 2 ^ nat e else 1 / 2 ^ nat (- e))"

definition roundHalfEven :: "rat \<Rightarrow> int" where
  "roundHalfEven x =
     (let f = \<lfloor>x\<rfloor>; d = x - of_int f in
      if d < 1 / 2 then f else if 1 / 2 < d then f + 1 else if even f then f else f + 1)"

definition fl :: "rat \<Rightarrow> rat" where
  "fl x =
     (if x = 0 then 0
      else let q = pow2 (ilog2 \<bar>x\<bar> - 52)
           in sgn x * of_int (roundHalfEven (\<bar>x\<bar> / q)) * q)"

text \<open>Arithmetic on numbers; \<open>None\<close> is \<open>NaN\<close>. The program divides by 60 only.\<close>

definition fadd :: "rat option \<Rightarrow> rat option \<Rightarrow> rat option" where
  "fadd a b = (case (a, b) of (Some x, Some y) \<Rightarrow> Some (fl (x + y)) | _ \<Rightarrow> None)"

definition fsub :: "rat option \<Rightarrow> rat option \<Rightarrow> rat option" where
  "fsub a b = (case (a, b) of (Some x, Some y) \<Rightarrow> Some (fl (x - y)) | _ \<Rightarrow> None)"

definition fdiv :: "rat option \<Rightarrow> rat option \<Rightarrow> rat option" where
  "fdiv a b = (case (a, b) of (Some x, Some y) \<Rightarrow> if y = 0 then None else Some (fl (x / y)) | _ \<Rightarrow> None)"

definition num :: "nat option \<Rightarrow> rat option" where
  "num n = map_option of_nat n"

text \<open>\<open>getDurationHours\<close> (lines 69 to 74).\<close>

definition getDurationHours :: "string \<Rightarrow> string \<Rightarrow> rat option" where
  "getDurationHours startTimeStr endTimeStr =
     (let sh = num (Number_field (Some (split0 CHR '':'' startTimeStr)));
          sm = num (Number_field (split1 CHR '':'' startTimeStr));
          eh = num (Number_field (Some (split0 CHR '':'' endTimeStr)));
          em = num (Number_field (split1 CHR '':'' endTimeStr))
      in fsub (fadd eh (fdiv em (Some 60))) (fadd sh (fdiv sm (Some 60))))"

text \<open>\<open>x >= 4\<close>, false for \<open>NaN\<close>.\<close>

definition ge4 :: "rat option \<Rightarrow> bool" where
  "ge4 x = (case x of None \<Rightarrow> False | Some v \<Rightarrow> 4 \<le> v)"

text \<open>\<open>formatTime\<close> (lines 60 to 67). \<open>String(NaN)\<close> is \<open>NaN\<close>; \<open>NaN || 12\<close> is 12.\<close>

definition formatTime :: "string \<Rightarrow> string" where
  "formatTime timeStr =
     (let h = Number_field (Some (split0 CHR '':'' timeStr));
          min = Number_field (split1 CHR '':'' timeStr);
          ampm = (case h of None \<Rightarrow> ''AM'' | Some n \<Rightarrow> if 12 \<le> n then ''PM'' else ''AM'');
          hour12 = (case h of None \<Rightarrow> 12 | Some n \<Rightarrow> if n mod 12 = 0 then 12 else n mod 12);
          minStr = (case min of None \<Rightarrow> []
                    | Some m \<Rightarrow> if 0 < m then '':'' @ padStart2 (showNat m) else [])
      in showNat hour12 @ minStr @ '' '' @ ampm)"

text \<open>\<open>toIcsDate\<close> and \<open>toIcsDateOnly\<close> (lines 39 to 48).\<close>

definition toIcsDate :: "string \<Rightarrow> string" where
  "toIcsDate localDateStr = split0 CHR ''.'' (filter (\<lambda>c. c \<notin> set ''-:'') localDateStr)"

definition toIcsDateOnly :: "string \<Rightarrow> string" where
  "toIcsDateOnly datePart = filter (\<lambda>c. c \<noteq> CHR ''-'') datePart"

section \<open>\<open>Date\<close>\<close>

text \<open>
  The time value of a \<open>Date\<close> is a count of milliseconds, \<open>None\<close> for an invalid date. The
  functions are those of the ECMAScript specification, on the proleptic Gregorian calendar.
\<close>

definition msPerDay :: int where
  "msPerDay = 86400000"

definition Day :: "int \<Rightarrow> int" where
  "Day t = t div msPerDay"

definition TimeWithinDay :: "int \<Rightarrow> int" where
  "TimeWithinDay t = t mod msPerDay"

definition DayFromYear :: "int \<Rightarrow> int" where
  "DayFromYear y = 365 * (y - 1970) + (y - 1969) div 4 - (y - 1901) div 100 + (y - 1601) div 400"

definition InLeapYear :: "int \<Rightarrow> bool" where
  "InLeapYear y = (if y mod 4 \<noteq> 0 then False else if y mod 100 \<noteq> 0 then True
                   else if y mod 400 \<noteq> 0 then False else True)"

definition leapDay :: "int \<Rightarrow> int" where
  "leapDay y = (if InLeapYear y then 1 else 0)"

text \<open>The year of day \<open>d\<close> is the largest \<open>y\<close> with \<open>DayFromYear y \<le> d\<close>; it is searched
  from an estimate, downwards and then upwards.\<close>

function yearDown :: "int \<Rightarrow> int \<Rightarrow> int" where
  "yearDown y d = (if d < DayFromYear y then yearDown (y - 1) d else y)"
  by pat_completeness auto
termination
proof (relation "measure (\<lambda>(y, d). nat (DayFromYear y - d))")
  fix y d :: int
  assume less: "d < DayFromYear y"
  have a: "(y - 1 - 1969) div 4 \<le> (y - 1969) div 4"
    by (rule zdiv_mono1) simp_all
  have "(y - 1901) div 100 \<le> (y - 1 - 1901 + 100) div 100"
    by (rule zdiv_mono1) simp_all
  then have b: "(y - 1901) div 100 \<le> (y - 1 - 1901) div 100 + 1"
    by simp
  have c: "(y - 1 - 1601) div 400 \<le> (y - 1601) div 400"
    by (rule zdiv_mono1) simp_all
  have "p' \<le> p \<Longrightarrow> q \<le> q' + 1 \<Longrightarrow> r' \<le> r \<Longrightarrow>
        365 * (y - 1 - 1970) + p' - q' + r' < 365 * (y - 1970) + p - q + r" for p q r p' q' r' :: int
    by simp
  from this [OF a b c] have "DayFromYear (y - 1) < DayFromYear y"
    by (simp only: DayFromYear_def)
  with less show "((y - 1, d), (y, d)) \<in> measure (\<lambda>(y, d). nat (DayFromYear y - d))"
    by simp
qed simp

function yearUp :: "int \<Rightarrow> int \<Rightarrow> int" where
  "yearUp y d = (if DayFromYear (y + 1) \<le> d then yearUp (y + 1) d else y)"
  by pat_completeness auto
termination
proof (relation "measure (\<lambda>(y, d). nat (d + 1 - DayFromYear y))")
  fix y d :: int
  assume le: "DayFromYear (y + 1) \<le> d"
  have a: "(y - 1969) div 4 \<le> (y + 1 - 1969) div 4"
    by (rule zdiv_mono1) simp_all
  have "(y + 1 - 1901) div 100 \<le> (y - 1901 + 100) div 100"
    by (rule zdiv_mono1) simp_all
  then have b: "(y + 1 - 1901) div 100 \<le> (y - 1901) div 100 + 1"
    by simp
  have c: "(y - 1601) div 400 \<le> (y + 1 - 1601) div 400"
    by (rule zdiv_mono1) simp_all
  have "p \<le> p' \<Longrightarrow> q' \<le> q + 1 \<Longrightarrow> r \<le> r' \<Longrightarrow>
        365 * (y - 1970) + p - q + r < 365 * (y + 1 - 1970) + p' - q' + r'" for p q r p' q' r' :: int
    by simp
  from this [OF a b c] have "DayFromYear y < DayFromYear (y + 1)"
    by (simp only: DayFromYear_def)
  with le show "((y + 1, d), (y, d)) \<in> measure (\<lambda>(y, d). nat (d + 1 - DayFromYear y))"
    by simp
qed simp

declare yearDown.simps [simp del] yearUp.simps [simp del]

definition YearFromDay :: "int \<Rightarrow> int" where
  "YearFromDay d = yearUp (yearDown (1970 + d div 365) d) d"

definition YearFromTime :: "int \<Rightarrow> int" where
  "YearFromTime t = YearFromDay (Day t)"

definition DayWithinYear :: "int \<Rightarrow> int" where
  "DayWithinYear t = Day t - DayFromYear (YearFromTime t)"

text \<open>The day within the year on which month \<open>m\<close> (0 to 11) starts; 12 gives the length
  of the year.\<close>

definition monthStart :: "int \<Rightarrow> int \<Rightarrow> int" where
  "monthStart L m =
     (if m = 0 then 0 else if m = 1 then 31 else if m = 2 then 59 + L
      else if m = 3 then 90 + L else if m = 4 then 120 + L else if m = 5 then 151 + L
      else if m = 6 then 181 + L else if m = 7 then 212 + L else if m = 8 then 243 + L
      else if m = 9 then 273 + L else if m = 10 then 304 + L else if m = 11 then 334 + L
      else 365 + L)"

definition MonthFromTime :: "int \<Rightarrow> int" where
  "MonthFromTime t =
     (let d = DayWithinYear t; L = leapDay (YearFromTime t) in
      if d < 31 then 0 else if d < 59 + L then 1 else if d < 90 + L then 2
      else if d < 120 + L then 3 else if d < 151 + L then 4 else if d < 181 + L then 5
      else if d < 212 + L then 6 else if d < 243 + L then 7 else if d < 273 + L then 8
      else if d < 304 + L then 9 else if d < 334 + L then 10 else 11)"

definition DateFromTime :: "int \<Rightarrow> int" where
  "DateFromTime t =
     DayWithinYear t - monthStart (leapDay (YearFromTime t)) (MonthFromTime t) + 1"

definition MakeDay :: "int \<Rightarrow> int \<Rightarrow> int \<Rightarrow> int" where
  "MakeDay year month dt =
     (let ym = year + month div 12; mn = month mod 12
      in DayFromYear ym + monthStart (leapDay ym) mn + dt - 1)"

definition MakeDate :: "int \<Rightarrow> int \<Rightarrow> int" where
  "MakeDate day time = day * msPerDay + time"

definition setUTCDate :: "int \<Rightarrow> int \<Rightarrow> int" where
  "setUTCDate t dt = MakeDate (MakeDay (YearFromTime t) (MonthFromTime t) dt) (TimeWithinDay t)"

text \<open>
  \<open>new Date(s)\<close> for \<open>s\<close> of the shape \<open>YYYY-MM-DDTHH:MM:SSZ\<close>, as V8 reads it: the month
  within 1 and 12, the day within 1 and 31 whatever the month, days beyond the end of the
  month running into the next. Any other text is an invalid date here; V8's fallback
  parser accepts some other shapes, which are outside the model.
\<close>

definition isoShape :: "string list" where
  "isoShape = [''dddd'', ''-'', ''dd'', ''-'', ''dd'', ''T'', ''dd'', '':'', ''dd'', '':'', ''dd'', ''Z'']"

fun shapeFields :: "string list \<Rightarrow> string \<Rightarrow> nat list option" where
  "shapeFields [] s = (if s = [] then Some [] else None)"
| "shapeFields (p # ps) s =
     (let f = take (length p) s; r = drop (length p) s in
      if length f \<noteq> length p then None
      else if hd p = CHR ''d'' then
        (if list_all isDigit f then map_option (\<lambda>ns. parseInt 10 f # ns) (shapeFields ps r) else None)
      else if f = p then shapeFields ps r else None)"

definition Date_parse :: "string \<Rightarrow> int option" where
  "Date_parse s =
     (case shapeFields isoShape s of
        Some [y, m, d, hh, mi, ss] \<Rightarrow>
          if 1 \<le> m \<and> m \<le> 12 \<and> 1 \<le> d \<and> d \<le> 31 \<and> hh \<le> 23 \<and> mi \<le> 59 \<and> ss \<le> 59
          then Some (MakeDate (MakeDay (int y) (int m - 1) (int d))
                              ((int hh * 60 + int mi) * 60000 + int ss * 1000))
          else None
      | _ \<Rightarrow> None)"

text \<open>\<open>nextDayIcs\<close> (lines 50 to 58). On an invalid date every getter is \<open>NaN\<close>.\<close>

definition nextDayIcs :: "string \<Rightarrow> string" where
  "nextDayIcs datePart =
     (case Date_parse (datePart @ ''T12:00:00Z'') of
        None \<Rightarrow> ''NaNNaNNaN''
      | Some t0 \<Rightarrow>
          (let d = setUTCDate t0 (DateFromTime t0 + 1);
               y = YearFromTime d;
               m = padStart2 (showInt (MonthFromTime d + 1));
               day = padStart2 (showInt (DateFromTime d))
           in showInt y @ m @ day))"

section \<open>\<open>buildIcs\<close> (lines 168 to 240)\<close>

text \<open>The values bound in the body of the loop, under the names of the source.\<close>

definition dateOf :: "local_date option \<Rightarrow> string option" where
  "dateOf l = (case l of None \<Rightarrow> None | Some x \<Rightarrow> if falsy (date x) then None else date x)"

text \<open>The test of line 184: the record has a start date.\<close>

definition hasStart :: "event \<Rightarrow> bool" where
  "hasStart event = (dateOf (start_date_local event) \<noteq> None)"

definition startDatePart :: "event \<Rightarrow> string" where
  "startDatePart event = split0 CHR ''T'' (the (dateOf (start_date_local event)))"

definition startTimePart :: "event \<Rightarrow> string" where
  "startTimePart event =
     split0 CHR ''.'' (orElse (split1 CHR ''T'' (the (dateOf (start_date_local event)))) ''00:00:00'')"

definition endDatePart :: "event \<Rightarrow> string" where
  "endDatePart event =
     (case dateOf (end_date_local event) of
        Some d \<Rightarrow> split0 CHR ''T'' d
      | None \<Rightarrow> startDatePart event)"

definition endTimePart :: "event \<Rightarrow> string" where
  "endTimePart event =
     (case dateOf (end_date_local event) of
        Some d \<Rightarrow> split0 CHR ''.'' (orElse (split1 CHR ''T'' d) (startTimePart event))
      | None \<Rightarrow> startTimePart event)"

definition isMultiDay :: "event \<Rightarrow> bool" where
  "isMultiDay event = (startDatePart event \<noteq> endDatePart event)"

definition durationHours :: "event \<Rightarrow> rat option" where
  "durationHours event = getDurationHours (startTimePart event) (endTimePart event)"

definition isAllDay :: "event \<Rightarrow> bool" where
  "isAllDay event = (isMultiDay event \<or> ge4 (durationHours event))"

text \<open>The en dash U+2013.\<close>

definition EN_DASH :: string where
  "EN_DASH = [CHR 0xE2, CHR 0x80, CHR 0x93]"

definition timeNote :: "event \<Rightarrow> string option" where
  "timeNote event =
     (if isAllDay event
      then Some (formatTime (startTimePart event) @ '' '' @ EN_DASH @ '' ''
                 @ formatTime (endTimePart event))
      else None)"

definition uid :: "event \<Rightarrow> string" where
  "uid event = ''quin-event-'' @ showIdent (event_id event) @ ''@thequinhouse.com''"

text \<open>
  \<open>now\<close>: the reading of the clock as \<open>toISOString\<close> gives it, without its \<open>-\<close>, \<open>:\<close> and
  \<open>.\<close>, cut to 15 characters, and \<open>Z\<close>.
\<close>

definition stamp :: "string \<Rightarrow> string" where
  "stamp isoNow = take 15 (filter (\<lambda>c. c \<notin> set ''-:.'') isoNow) @ ''Z''"

text \<open>The lines pushed for one record that has a start date (lines 186 to 234).\<close>

definition dateLines :: "event \<Rightarrow> string list" where
  "dateLines event =
     (if isAllDay event
      then [''DTSTART;VALUE=DATE:'' @ toIcsDateOnly (startDatePart event),
            ''DTEND;VALUE=DATE:'' @ nextDayIcs (endDatePart event)]
      else [''DTSTART;TZID=America/New_York:'' @ toIcsDate (the (dateOf (start_date_local event))),
            ''DTEND;TZID=America/New_York:''
            @ (case dateOf (end_date_local event) of
                 Some d \<Rightarrow> toIcsDate d
               | None \<Rightarrow> toIcsDate (the (dateOf (start_date_local event))))])"

definition eventLines :: "he_tables \<Rightarrow> string \<Rightarrow> event \<Rightarrow> string list" where
  "eventLines T isoNow event =
     (let title = orElse (title event) ''Quin House Event'';
          venue = (if falsy (venue event) then [] else trim (the (venue event)));
          description = buildDescription T event (timeNote event)
      in [''BEGIN:VEVENT'', ''UID:'' @ uid event, ''DTSTAMP:'' @ stamp isoNow]
         @ dateLines event
         @ [''SUMMARY:'' @ escapeIcs (Some title)]
         @ (if venue \<noteq> [] then [''LOCATION:'' @ escapeIcs (Some venue)] else [])
         @ [''DESCRIPTION:'' @ escapeIcs (Some description),
            ''URL:'' @ BASE_URL @ ''/events/'' @ showIdent (event_id event)]
         @ (if categories event \<noteq> []
            then [''CATEGORIES:'' @ join '','' (map (\<lambda>c. escapeIcs (Some (name c))) (categories event))]
            else [])
         @ [''END:VEVENT''])"

text \<open>
  The loop over the records. \<open>clock k\<close> is the \<open>k\<close>-th reading of \<open>new Date()\<close>; the clock is
  read once for each record that passes the test of line 184, after the test.
\<close>

fun eventLoop :: "he_tables \<Rightarrow> (nat \<Rightarrow> string) \<Rightarrow> nat \<Rightarrow> event list \<Rightarrow> string list" where
  "eventLoop T clock k [] = []"
| "eventLoop T clock k (event # events) =
     (if \<not> hasStart event then eventLoop T clock k events
      else eventLines T (clock k) event @ eventLoop T clock (Suc k) events)"

text \<open>The lines pushed before the loop; \<open>None\<close> takes the default calendar name.\<close>

definition calendarHead :: "string option \<Rightarrow> string list" where
  "calendarHead calendarName =
     [''BEGIN:VCALENDAR'', ''VERSION:2.0'', ''PRODID:-//Quin House Calendar//EN'',
      ''CALSCALE:GREGORIAN'', ''METHOD:PUBLISH'',
      ''X-WR-CALNAME:'' @ (case calendarName of None \<Rightarrow> ''The '' @ [CHR 0x27] @ ''Quin House Events''
                                              | Some n \<Rightarrow> n),
      ''X-WR-TIMEZONE:America/New_York'',
      ''X-WR-CALDESC:Upcoming programming at The '' @ [CHR 0x27] @ ''Quin House member club'']"

definition icsLines :: "he_tables \<Rightarrow> (nat \<Rightarrow> string) \<Rightarrow> event list \<Rightarrow> string option \<Rightarrow> string list" where
  "icsLines T clock events calendarName =
     calendarHead calendarName @ eventLoop T clock 0 events @ [''END:VCALENDAR'']"

section \<open>\<open>foldLine\<close> (lines 86 to 98)\<close>

text \<open>
  \<open>Buffer.from(line, 'utf8')\<close> is the octets of the line, which the model holds already.
  \<open>buf.toString('utf8')\<close> decodes octets; its result, held as octets again, keeps every
  well-formed sequence and has U+FFFD (EF BF BD) in place of every maximal ill-formed part:
  a lead octet says how many continuation octets it needs and in which range the first of
  them lies; a part that breaks off early is replaced as a whole, and so is every octet
  that cannot start a sequence.
\<close>

definition REPLACEMENT :: string where
  "REPLACEMENT = [CHR 0xEF, CHR 0xBF, CHR 0xBD]"

definition leadOctet :: "char \<Rightarrow> (nat \<times> nat \<times> nat) option" where
  "leadOctet b =
     (let n = (of_char b :: nat) in
      if 0xC2 \<le> n \<and> n \<le> 0xDF then Some (1, 0x80, 0xBF)
      else if n = 0xE0 then Some (2, 0xA0, 0xBF)
      else if n = 0xED then Some (2, 0x80, 0x9F)
      else if 0xE1 \<le> n \<and> n \<le> 0xEF then Some (2, 0x80, 0xBF)
      else if n = 0xF0 then Some (3, 0x90, 0xBF)
      else if n = 0xF4 then Some (3, 0x80, 0x8F)
      else if 0xF1 \<le> n \<and> n \<le> 0xF3 then Some (3, 0x80, 0xBF)
      else None)"

text \<open>How many of the next octets continue the sequence: at most \<open>need\<close>, the first one
  within \<open>lo\<close> and \<open>hi\<close>, the others within 80 and BF.\<close>

fun contRun :: "nat \<Rightarrow> nat \<Rightarrow> nat \<Rightarrow> string \<Rightarrow> nat" where
  "contRun 0 lo hi s = 0"
| "contRun (Suc k) lo hi [] = 0"
| "contRun (Suc k) lo hi (c # s) =
     (if lo \<le> of_char c \<and> of_char c \<le> hi then Suc (contRun k 0x80 0xBF s) else 0)"

fun buffer_toString :: "string \<Rightarrow> string" where
  "buffer_toString [] = []"
| "buffer_toString (b # bs) =
     (if \<not> digit7 b then b # buffer_toString bs
      else case leadOctet b of
             None \<Rightarrow> REPLACEMENT @ buffer_toString bs
           | Some (need, lo, hi) \<Rightarrow>
               if contRun need lo hi bs = need
               then (b # take need bs) @ buffer_toString (drop need bs)
               else REPLACEMENT @ buffer_toString (drop (contRun need lo hi bs) bs))"

text \<open>The loop of \<open>foldLine\<close>: the chunks pushed from offset \<open>start\<close> on.\<close>

function chunksFrom :: "string \<Rightarrow> nat \<Rightarrow> string list" where
  "chunksFrom bytes start =
     (if start < length bytes
      then buffer_toString (take (if start = 0 then 75 else 74) (drop start bytes))
           # chunksFrom bytes (start + (if start = 0 then 75 else 74))
      else [])"
  by pat_completeness auto
termination
  by (relation "measure (\<lambda>(bytes, start). length bytes - start)") auto

declare chunksFrom.simps [simp del]

definition foldLine :: "string \<Rightarrow> string" where
  "foldLine line =
     (if length line \<le> 75 then line @ CRLF
      else join (CRLF @ '' '') (chunksFrom line 0) @ CRLF)"

definition buildIcs :: "he_tables \<Rightarrow> (nat \<Rightarrow> string) \<Rightarrow> event list \<Rightarrow> string option \<Rightarrow> string" where
  "buildIcs T clock events calendarName =
     concat (map foldLine (icsLines T clock events calendarName))"

text \<open>The filter of the personal calendar in \<open>main\<close> (lines 399 to 401).\<close>

definition personalEvents :: "event list \<Rightarrow> event list" where
  "personalEvents events = filter (\<lambda>e. registered e = Some True \<or> isOnWaitlist e) events"

section \<open>\<open>filter.js\<close>\<close>

text \<open>\<open>/\r\n[ \t]/\<close>, the continuation that unfolding removes.\<close>

definition match_fold :: "string \<Rightarrow> nat" where
  "match_fold s = (if matchSeq [[CR], [LF], [CHR 0x20, CHR 0x09]] s then 3 else 0)"

definition unfoldIcs :: "string \<Rightarrow> string" where
  "unfoldIcs raw = replaceAll match_fold [] raw"

section \<open>Sample inputs\<close>

text \<open>An excerpt of the tables of \<open>he\<close>, for the evaluations below.\<close>

definition he_sample :: he_tables where
  "he_sample =
     \<lparr>decodeMap = [(''amp'', ''&''), (''lt'', ''<''), (''gt'', ''>''), (''quot'', [CHR 0x22]),
                   (''nbsp'', [CHR 0xC2, CHR 0xA0]), (''NewLine'', [LF])],
      decodeMapLegacy = [(''amp'', ''&''), (''lt'', ''<''), (''gt'', ''>''), (''quot'', [CHR 0x22]),
                         (''nbsp'', [CHR 0xC2, CHR 0xA0])]\<rparr>"

text \<open>
  An event with a waitlist form (the form's identifier is on every such event) that the
  viewer has neither booked nor joined the waitlist of.
\<close>

definition waitlistFormEvent :: event where
  "waitlistFormEvent =
     \<lparr>event_id = IdNum 173774, title = Some ''Supper Club'', description = None, venue = None,
      start_date_local = Some \<lparr>date = Some ''2026-03-05T18:00:00''\<rparr>,
      end_date_local = Some \<lparr>date = Some ''2026-03-05T20:00:00''\<rparr>,
      categories = [], tickets = [], availability = Some ''waitlist'',
      registered = Some False, waitlist = Some \<lparr>waitlist_id = Some (IdNum 15310)\<rparr>,
      waitlistSubmitted = Some False\<rparr>"

text \<open>A sold-out event on which the viewer holds a confirmed place.\<close>

definition soldOutConfirmedEvent :: event where
  "soldOutConfirmedEvent =
     \<lparr>event_id = IdNum 167495, title = Some ''Wine Dinner'', description = None, venue = None,
      start_date_local = Some \<lparr>date = Some ''2026-03-07T19:00:00''\<rparr>,
      end_date_local = Some \<lparr>date = Some ''2026-03-07T21:00:00''\<rparr>,
      categories = [], tickets = [], availability = Some ''sold_out'',
      registered = Some True, waitlist = None, waitlistSubmitted = None\<rparr>"

text \<open>An event description with three line feeds written as character references.\<close>

definition doorsHtml :: string where
  "doorsHtml = ''Doors 7pm&#10;&#10;&#10;Dinner 8pm''"

text \<open>
  The description line of an all-day event in the category \<open>Arts & Culture\<close>: the en dash
  of the time note (E2 80 93) takes the octets 74 to 76 of the line.
\<close>

definition dashLineHead :: string where
  "dashLineHead =
     ''DESCRIPTION:Category: Arts & Culture'' @ [BSL, CHR ''n''] @ ''Price: Free / Included''
     @ [BSL, CHR ''n''] @ ''Time: 10 AM ''"

definition dashLineTail :: string where
  "dashLineTail =
     '' 6 PM'' @ [BSL, CHR ''n''] @ ''Event URL: https://members.thequinhouse.com/events/42''
     @ [BSL, CHR ''n'']"

definition dashLine :: string where
  "dashLine = dashLineHead @ [CHR 0xE2, CHR 0x80, CHR 0x93] @ dashLineTail"

text \<open>An event that starts at 13:20 and ends at 17:20 on the same day, four hours later.\<close>

definition fourHourEvent :: event where
  "fourHourEvent =
     \<lparr>event_id = IdNum 170001, title = Some ''Afternoon Workshop'', description = None,
      venue = Some ''The Living Room'',
      start_date_local = Some \<lparr>date = Some ''2026-03-14T13:20:00''\<rparr>,
      end_date_local = Some \<lparr>date = Some ''2026-03-14T17:20:00''\<rparr>,
      categories = [], tickets = [], availability = Some ''available'',
      registered = None, waitlist = None, waitlistSubmitted = None\<rparr>"

text \<open>An event from 27 February to 1 March 2026.\<close>

definition popUpEvent :: event where
  "popUpEvent =
     \<lparr>event_id = IdNum 170002, title = Some ''Purveyor Pop-Up'', description = None,
      venue = None,
      start_date_local = Some \<lparr>date = Some ''2026-02-27T10:00:00''\<rparr>,
      end_date_local = Some \<lparr>date = Some ''2026-03-01T18:00:00''\<rparr>,
      categories = [], tickets = [], availability = None,
      registered = None, waitlist = None, waitlistSubmitted = None\<rparr>"

section \<open>Calendar dates\<close>

text \<open>
  The words of the specification about dates, to compare the program with: a calendar date
  is a year, a month from 1 to 12 and a day of that month; the day after the last day of a
  month is the first of the next month, and after 31 December comes 1 January. A date is
  written \<open>YYYY-MM-DD\<close> in a record and \<open>YYYYMMDD\<close> in the calendar.
\<close>

definition daysInMonth :: "int \<Rightarrow> int \<Rightarrow> int" where
  "daysInMonth y m =
     (if m = 2 then (if InLeapYear y then 29 else 28)
      else if m = 4 \<or> m = 6 \<or> m = 9 \<or> m = 11 then 30 else 31)"

definition validDate :: "int \<times> int \<times> int \<Rightarrow> bool" where
  "validDate ymd = (case ymd of (y, m, d) \<Rightarrow> 1 \<le> m \<and> m \<le> 12 \<and> 1 \<le> d \<and> d \<le> daysInMonth y m)"

definition nextCalendarDay :: "int \<times> int \<times> int \<Rightarrow> int \<times> int \<times> int" where
  "nextCalendarDay ymd =
     (case ymd of (y, m, d) \<Rightarrow>
        if d < daysInMonth y m then (y, m, d + 1)
        else if m < 12 then (y, m + 1, 1) else (y + 1, 1, 1))"

definition digits2 :: "nat \<Rightarrow> string" where
  "digits2 n = [digitChar (n div 10 mod 10), digitChar (n mod 10)]"

definition digits4 :: "nat \<Rightarrow> string" where
  "digits4 n = [digitChar (n div 1000 mod 10), digitChar (n div 100 mod 10),
                digitChar (n div 10 mod 10), digitChar (n mod 10)]"

definition dashedDate :: "int \<times> int \<times> int \<Rightarrow> string" where
  "dashedDate ymd =
     (case ymd of (y, m, d) \<Rightarrow> digits4 (nat y) @ ''-'' @ digits2 (nat m) @ ''-'' @ digits2 (nat d))"

definition compactDate :: "int \<times> int \<times> int \<Rightarrow> string" where
  "compactDate ymd = (case ymd of (y, m, d) \<Rightarrow> digits4 (nat y) @ digits2 (nat m) @ digits2 (nat d))"

section \<open>Evaluation of the helpers\<close>

lemma showNat_numeral [simp]:
  "showNat (numeral k) =
     (if numeral k < (10::nat) then [digitChar (numeral k)]
      else showNat (numeral k div 10) @ [digitChar (numeral k mod 10)])"
  by (rule showNat.simps)

lemma showNat_0 [simp]: "showNat 0 = ''0''"
  by (simp add: showNat.simps digitChar_def)

lemma showNat_1 [simp]: "showNat (Suc 0) = ''1''"
  by (simp add: showNat.simps digitChar_def)

lemma stripHtml_None [simp]: "stripHtml T None = []"
  by (simp add: stripHtml_def falsy_def)

section \<open>Status line\<close>

text \<open>
  C1. With \<open>registered\<close> not true, the line \<open>Status: You are on Waitlist\<close> is to appear
  exactly when the viewer's own \<open>waitlistSubmitted\<close> is true, not because the event has a
  waitlist form. The program keys on \<open>event.waitlist.id\<close> instead: for an event that carries
  the form, with \<open>registered\<close> false and \<open>waitlistSubmitted\<close> false, it produces the line.
\<close>

theorem waitlist_line_without_submission:
  "registered waitlistFormEvent \<noteq> Some True
   \<and> waitlistSubmitted waitlistFormEvent \<noteq> Some True
   \<and> statusPart waitlistFormEvent = [''Status: You are on Waitlist'']
   \<and> buildDescription T waitlistFormEvent None =
       ''Price: Free / Included'' @ [LF] @ ''Status: You are on Waitlist'' @ [LF]
       @ ''Event URL: https://members.thequinhouse.com/events/173774'' @ [LF]"
  by (simp add: waitlistFormEvent_def statusPart_def isConfirmed_def isOnWaitlist_def
      buildDescription_def descriptionParts_def categoryPart_def pricePart_def timePart_def
      urlPart_def descPart_def falsy_def BASE_URL_def showInt_def digitChar_def)

text \<open>
  C2. For every event with \<open>registered\<close> true the status block is the single line
  \<open>Status: You are Confirmed\<close>, that line is among the parts of the description, the
  description is the other blocks around that line, and it is the same whatever the
  availability, the waitlist form and the waitlist submission of the event are: no
  availability line is rendered.
\<close>

theorem confirmed_status_precedence:
  assumes "registered event = Some True"
  shows "statusPart event = [''Status: You are Confirmed'']
     \<and> ''Status: You are Confirmed'' \<in> set (descriptionParts T event tn)
     \<and> buildDescription T event tn =
         join [LF] (categoryPart event @ pricePart event @ [''Status: You are Confirmed'']
                    @ timePart tn @ urlPart event @ descPart T event)
     \<and> (\<forall>a w s. buildDescription T
                    (event\<lparr>availability := a, waitlist := w, waitlistSubmitted := s\<rparr>) tn
                = buildDescription T event tn)"
  using assms
  by (simp add: statusPart_def isConfirmed_def buildDescription_def descriptionParts_def
      categoryPart_def pricePart_def urlPart_def descPart_def)

theorem confirmed_status_precedence_witness:
  "registered soldOutConfirmedEvent = Some True
   \<and> availability soldOutConfirmedEvent = Some ''sold_out''
   \<and> statusPart soldOutConfirmedEvent = [''Status: You are Confirmed'']
   \<and> buildDescription he_sample soldOutConfirmedEvent None =
       ''Price: Free / Included'' @ [LF] @ ''Status: You are Confirmed'' @ [LF]
       @ ''Event URL: https://members.thequinhouse.com/events/167495'' @ [LF]"
proof -
  have r: "registered soldOutConfirmedEvent = Some True"
    by (simp add: soldOutConfirmedEvent_def)
  have parts: "categoryPart soldOutConfirmedEvent = []"
    "pricePart soldOutConfirmedEvent = [''Price: Free / Included'']"
    "timePart None = []"
    "urlPart soldOutConfirmedEvent = [''Event URL: https://members.thequinhouse.com/events/167495'', []]"
    "descPart he_sample soldOutConfirmedEvent = []"
    by (simp_all add: soldOutConfirmedEvent_def categoryPart_def pricePart_def timePart_def
        urlPart_def descPart_def falsy_def BASE_URL_def showInt_def digitChar_def)
  show ?thesis
    using confirmed_status_precedence [OF r, of he_sample None] r
    by (simp add: parts) (simp add: soldOutConfirmedEvent_def)
qed

section \<open>\<open>stripHtml\<close>\<close>

lemma stripHtml_Some:
  "html \<noteq> [] \<Longrightarrow> stripHtml T (Some html) =
     trim (he_decode T
             (replaceAll match_nl3 [LF, LF]
               (replaceAll match_tag []
                 (replaceAll (match_seq [''<'', ''/'', ''dD'', ''iI'', ''vV'', ''>'']) [LF]
                   (replaceAll (match_seq [''<'', ''/'', ''pP'', ''>'']) [LF]
                     (replaceAll match_br [LF] html))))))"
  by (simp add: stripHtml_def falsy_def)

lemmas he_eval = matchRef_def codePointToSymbol_def decodeMapNumeric_def parseInt_def
  digitVal_def lowerChar_def isDigit_def isAlnum_def isHexDigit_def utf8_encode1_def
  char_of_def bit_iff_odd he_sample_def

text \<open>
  C8. The output of \<open>stripHtml\<close> is to hold no run of three or more newlines. The program
  collapses the runs before it decodes the character references, so newlines written as
  references are not collapsed: for \<open>Doors 7pm&#10;&#10;&#10;Dinner 8pm\<close> the output has three
  newlines in a row.
\<close>

theorem stripHtml_three_newlines:
  "stripHtml he_sample (Some doorsHtml) = ''Doors 7pm'' @ [LF, LF, LF] @ ''Dinner 8pm''
   \<and> includes_str (stripHtml he_sample (Some doorsHtml)) [LF, LF, LF]"
proof -
  have ne: "doorsHtml \<noteq> []"
    by (simp add: doorsHtml_def)
  have re: "replaceAll match_nl3 [LF, LF]
               (replaceAll match_tag []
                 (replaceAll (match_seq [''<'', ''/'', ''dD'', ''iI'', ''vV'', ''>'']) [LF]
                   (replaceAll (match_seq [''<'', ''/'', ''pP'', ''>'']) [LF]
                     (replaceAll match_br [LF] doorsHtml)))) = doorsHtml"
    by code_simp
  have he: "he_decode he_sample doorsHtml = ''Doors 7pm'' @ [LF, LF, LF] @ ''Dinner 8pm''"
    by (simp add: doorsHtml_def he_eval)
  have tr: "trim (''Doors 7pm'' @ [LF, LF, LF] @ ''Dinner 8pm'')
            = ''Doors 7pm'' @ [LF, LF, LF] @ ''Dinner 8pm''"
    by code_simp
  have eq: "stripHtml he_sample (Some doorsHtml) = ''Doors 7pm'' @ [LF, LF, LF] @ ''Dinner 8pm''"
    by (simp only: stripHtml_Some [OF ne] re he tr)
  have "includes_str (''Doors 7pm'' @ [LF, LF, LF] @ ''Dinner 8pm'') [LF, LF, LF]"
    by code_simp
  with eq show ?thesis by simp
qed

section \<open>Line folding\<close>

text \<open>
  C5. Folding is to emit physical lines of at most 75 octets, never to split a multi-byte
  character, and to be undone by unfolding. The program cuts the octets at the offsets 75,
  149, ... wherever they fall. In the description line of an all-day event whose en dash
  takes the octets 74 to 76, the cut falls inside the dash: the first physical line is the
  74 octets before the dash and one U+FFFD, 77 octets; the second starts with two U+FFFD;
  unfolding gives three U+FFFD where the dash was.
\<close>

theorem foldLine_splits_character:
  "foldLine dashLine =
     dashLineHead @ REPLACEMENT @ CRLF @ '' '' @ REPLACEMENT @ REPLACEMENT @ dashLineTail @ CRLF
   \<and> length (dashLineHead @ REPLACEMENT) = 77
   \<and> unfoldIcs (foldLine dashLine) =
       dashLineHead @ REPLACEMENT @ REPLACEMENT @ REPLACEMENT @ dashLineTail @ CRLF
   \<and> unfoldIcs (foldLine dashLine) \<noteq> dashLine @ CRLF"
proof -
  have f: "foldLine dashLine =
     dashLineHead @ REPLACEMENT @ CRLF @ '' '' @ REPLACEMENT @ REPLACEMENT @ dashLineTail @ CRLF"
    by code_simp
  have l: "length (dashLineHead @ REPLACEMENT) = 77"
    by code_simp
  have u: "unfoldIcs (dashLineHead @ REPLACEMENT @ CRLF @ '' '' @ REPLACEMENT @ REPLACEMENT
                      @ dashLineTail @ CRLF) =
       dashLineHead @ REPLACEMENT @ REPLACEMENT @ REPLACEMENT @ dashLineTail @ CRLF"
    by code_simp
  have n: "dashLineHead @ REPLACEMENT @ REPLACEMENT @ REPLACEMENT @ dashLineTail @ CRLF
           \<noteq> dashLine @ CRLF"
    by code_simp
  show ?thesis
    by (simp only: f l u n simp_thms)
qed

end
